theory Spec2Isabelle
  imports Main "HOL-Library.Sublist"
begin

section \<open>JavaScript values used by the services\<close>

text \<open>
  Optional properties (\<^verbatim>\<open>x?: T\<close>, or a value that may be \<^verbatim>\<open>undefined\<close>) are
  \<open>'a option\<close>, \<open>None\<close> standing for \<^verbatim>\<open>undefined\<close>.  The truthiness tests of the
  source are written out: a string is falsy when it is missing or empty, a boolean when it
  is missing or false, and an array (like every object) is always truthy.
\<close>

definition falsy_string :: "string option \<Rightarrow> bool" where
  "falsy_string s = (case s of None \<Rightarrow> True | Some t \<Rightarrow> t = [])"

definition falsy_bool :: "bool option \<Rightarrow> bool" where
  "falsy_bool b = (case b of None \<Rightarrow> True | Some v \<Rightarrow> \<not> v)"

definition truthy_array :: "'a list \<Rightarrow> bool" where
  "truthy_array xs = True"

text \<open>
  \<^verbatim>\<open>String.prototype.indexOf\<close>: the position of the first occurrence of \<open>t\<close> in \<open>s\<close>,
  or \<open>-1\<close> when there is none.
\<close>

fun indexOf_from :: "string \<Rightarrow> string \<Rightarrow> int \<Rightarrow> int" where
  "indexOf_from [] t i = (if t = [] then i else - 1)"
| "indexOf_from (c # cs) t i = (if prefix t (c # cs) then i else indexOf_from cs t (i + 1))"

definition indexOf :: "string \<Rightarrow> string \<Rightarrow> int" where
  "indexOf s t = indexOf_from s t 0"

text \<open>\<^verbatim>\<open>Array.prototype.join(sep)\<close> on an array of strings.\<close>

fun array_join :: "string \<Rightarrow> string list \<Rightarrow> string" where
  "array_join sep [] = []"
| "array_join sep [x] = x"
| "array_join sep (x # y # ys) = x @ sep @ array_join sep (y # ys)"

text \<open>An array of strings inside a template literal is rendered by \<^verbatim>\<open>toString\<close>,
  that is \<^verbatim>\<open>join(",")\<close>.\<close>

definition array_toString :: "string list \<Rightarrow> string" where
  "array_toString xs = array_join '','' xs"

section \<open>Errors and effects\<close>

text \<open>
  An exception is a value: \<^verbatim>\<open>IStdError\<close> with its message, the \<^verbatim>\<open>stderr\<close> property
  and the \<^verbatim>\<open>buildId\<close> property that \<^verbatim>\<open>generateCodesignFiles\<close> attaches.
\<close>

record std_error =
  message :: string
  err_stderr :: "string option"
  err_buildId :: "string option"

text \<open>
  \<^verbatim>\<open>$errors.failWithoutHelp(message)\<close> belongs to the CLI the plugin runs in; it throws
  an error with the given message and never returns.
\<close>

definition failWithoutHelp :: "string \<Rightarrow> std_error + 'a" where
  "failWithoutHelp msg = Inl \<lparr>message = msg, err_stderr = None, err_buildId = None\<rparr>"

text \<open>
  An action is the list of the effects it performed, in order, with its outcome: \<open>Inl\<close>
  the exception thrown, \<open>Inr\<close> the value returned.
\<close>

type_synonym ('e, 'a) action = "'e list \<times> (std_error + 'a)"

definition ret :: "'a \<Rightarrow> ('e, 'a) action" where
  "ret x = ([], Inr x)"

definition throw :: "std_error \<Rightarrow> ('e, 'a) action" where
  "throw e = ([], Inl e)"

definition emit :: "'e \<Rightarrow> ('e, unit) action" where
  "emit ev = ([ev], Inr ())"

text \<open>A call of a collaborator: the call is recorded, its outcome is the collaborator's.\<close>

definition perform :: "'e \<Rightarrow> std_error + 'a \<Rightarrow> ('e, 'a) action" where
  "perform ev outcome = ([ev], outcome)"

text \<open>Sequencing (\<^verbatim>\<open>;\<close> and \<^verbatim>\<open>await\<close>): an exception skips the rest.\<close>

definition andThen :: "('e, 'a) action \<Rightarrow> ('a \<Rightarrow> ('e, 'b) action) \<Rightarrow> ('e, 'b) action" where
  "andThen m f =
     (case m of
        (evs, Inl e) \<Rightarrow> (evs, Inl e)
      | (evs, Inr x) \<Rightarrow> (case f x of (evs', r) \<Rightarrow> (evs @ evs', r)))"

text \<open>\<^verbatim>\<open>try { m } catch (ex) { h(ex) }\<close>.\<close>

definition tryCatch :: "('e, 'a) action \<Rightarrow> (std_error \<Rightarrow> ('e, 'a) action) \<Rightarrow> ('e, 'a) action" where
  "tryCatch m h =
     (case m of
        (evs, Inl e) \<Rightarrow> (case h e of (evs', r) \<Rightarrow> (evs @ evs', r))
      | (evs, Inr x) \<Rightarrow> (evs, Inr x))"

section \<open>Data of the code signing service\<close>

text \<open>
  The declarations of these interfaces and the module \<^verbatim>\<open>constants\<close> are not part of
  the sources at hand; the records hold the properties the services read and write, and
  the constants are parameters.
\<close>

record constants =
  CERTIFICATE :: string
  PROVISION :: string
  CODESIGN_FILES_DIR_NAME :: string
  RELEASE :: string
  DEBUG :: string

type_synonym device_info = string

record codesign_data =
  username :: "string option"
  password :: "string option"
  clean :: "bool option"
  platform :: string
  sharedCloud :: "bool option"
  attachedDevices :: "device_info list"

record project_data =
  pd_projectDir :: string
  pd_projectName :: string
  pd_projectId :: string

record codesign_request =
  req_buildId :: string
  appId :: string
  appName :: string
  req_clean :: "bool option"
  req_username :: "string option"
  req_password :: "string option"
  req_sharedCloud :: "bool option"
  devices :: "device_info list"

record server_response =
  resultUrl :: string
  logsUrl :: "string option"

record server_item =
  disposition :: string
  filename :: string
  fullPath :: string

record build_server_result =
  buildItems :: "server_item list option"
  errors :: "string option"
  stderr :: "string option"
  stdout :: "string option"

record output_directory_options =
  out_projectDir :: string
  out_platform :: string
  emulator :: bool

record codesign_result_data =
  res_buildId :: string
  res_stderr :: "string option"
  res_stdout :: "string option"
  res_fullOutput :: string
  res_outputFilesPaths :: "string list"

section \<open>getServerResults and getServerOperationOutputDirectory\<close>

text \<open>
  \<^verbatim>\<open>_.filter(collection, predicate)\<close> of lodash: a new array with the elements the
  predicate accepts, in their order; a missing collection gives the empty array.
\<close>

fun filter_array :: "('a \<Rightarrow> bool) \<Rightarrow> 'a list \<Rightarrow> 'a list" where
  "filter_array p [] = []"
| "filter_array p (x # xs) = (if p x then x # filter_array p xs else filter_array p xs)"

definition lodash_filter :: "'a list option \<Rightarrow> ('a \<Rightarrow> bool) \<Rightarrow> 'a list" where
  "lodash_filter collection p = (case collection of None \<Rightarrow> [] | Some xs \<Rightarrow> filter_array p xs)"

definition isCodesignItem :: "constants \<Rightarrow> server_item \<Rightarrow> bool" where
  "isCodesignItem c b = (disposition b = CERTIFICATE c \<or> disposition b = PROVISION c)"

definition getServerResults :: "constants \<Rightarrow> build_server_result \<Rightarrow> std_error + server_item list" where
  "getServerResults c codesignResult =
     (let result = lodash_filter (buildItems codesignResult) (isCodesignItem c)
      in if \<not> truthy_array result
         then failWithoutHelp (''No item with disposition '' @ CERTIFICATE c @ '' or '' @ PROVISION c
                @ '' found in the server result items.'')
         else Inr result)"











section \<open>The code signing service\<close>

text \<open>
  The collaborators of CloudCodesignService, whose code lies outside the class: the uuid
  library, the injected services, and the methods inherited from CloudService
  (waitForServerOperationToFinish, getObjectFromS3File, downloadServerResults,
  getContentOfS3File).  Each is a parameter: for a call it gives the value returned or the
  exception thrown.  The service calls each of them at most once in a run, so a function
  of the arguments is as general as a stateful collaborator.
\<close>

record codesign_env =
  uuid_v4 :: string
  getProjectData :: "string \<Rightarrow> std_error + project_data"
  sanitizeName :: "string \<Rightarrow> std_error + string"
  serverGenerateCodesignFiles :: "codesign_request \<Rightarrow> std_error + server_response"
  waitForServerOperationToFinish :: "string \<Rightarrow> server_response \<Rightarrow> std_error + unit"
  getObjectFromS3File :: "string \<Rightarrow> std_error + build_server_result"
  downloadServerResults :: "build_server_result \<Rightarrow> output_directory_options \<Rightarrow> std_error + string list"
  getContentOfS3File :: "string \<Rightarrow> std_error + string"

text \<open>What a logger call is given: text, or an object the logger renders.\<close>

datatype log_arg =
    Str string
  | ResponseJson server_response
  | ErrObj std_error
  | ResultObj build_server_result

text \<open>
  The effects of a run, in the order they happen: the logger's lines with their level, the
  generation of the build id, and the calls of the collaborators.
\<close>

datatype event =
    LoggerInfo string
  | LoggerTrace "log_arg list"
  | UuidV4
  | GetProjectData string
  | SanitizeName string
  | ServerGenerateCodesignFiles codesign_request
  | WaitForServerOperationToFinish string server_response
  | GetObjectFromS3File string
  | DownloadServerResults build_server_result output_directory_options
  | GetContentOfS3File string

text \<open>The calls that go over the network.\<close>

fun isNetworkCall :: "event \<Rightarrow> bool" where
  "isNetworkCall (ServerGenerateCodesignFiles r) = True"
| "isNetworkCall (WaitForServerOperationToFinish b r) = True"
| "isNetworkCall (GetObjectFromS3File u) = True"
| "isNetworkCall (DownloadServerResults r opts) = True"
| "isNetworkCall (GetContentOfS3File u) = True"
| "isNetworkCall ev = False"

definition validateParameteres :: "codesign_data option \<Rightarrow> string \<Rightarrow> (event, unit) action" where
  "validateParameteres codesignData projectDir =
     andThen
       (if (case codesignData of
              None \<Rightarrow> True
            | Some d \<Rightarrow> falsy_string (username d) \<or> falsy_string (password d))
        then ([], failWithoutHelp
               ''Codesign failed. Reason is missing code sign data. Apple Id and Apple Id password are required..'')
        else ret ())
       (\<lambda>_. if projectDir = []
            then ([], failWithoutHelp ''Codesign failed. Reason is invalid project path.'')
            else ret ())"

definition prepareCodesignRequest ::
    "codesign_env \<Rightarrow> string \<Rightarrow> codesign_data \<Rightarrow> project_data \<Rightarrow> (event, codesign_request) action" where
  "prepareCodesignRequest env buildId codesignData projectData =
     andThen (perform (SanitizeName (pd_projectName projectData))
                (sanitizeName env (pd_projectName projectData)))
       (\<lambda>sanitizedProjectName.
          ret \<lparr>req_buildId = buildId,
               appId = pd_projectId projectData,
               appName = sanitizedProjectName,
               req_clean = clean codesignData,
               req_username = username codesignData,
               req_password = password codesignData,
               req_sharedCloud = sharedCloud codesignData,
               devices = attachedDevices codesignData\<rparr>)"

definition codesignInformationString :: string where
  "codesignInformationString = ''generation of iOS certificate and provision files''"

definition serviceUnavailableMessage :: string where
  "serviceUnavailableMessage =
     ''The Code Signing Assistance service is temporary unavailable. Please try again later.''"

text \<open>
  The branch of executeGeneration taken when the manifest has no build items.
  \<^verbatim>\<open>codesignResult.errors || ""\<close> is the errors text, or the empty string when it is
  missing.
\<close>

definition errorsOrEmpty :: "build_server_result \<Rightarrow> string" where
  "errorsOrEmpty codesignResult = (case errors codesignResult of None \<Rightarrow> [] | Some t \<Rightarrow> t)"

definition failGeneration :: "build_server_result \<Rightarrow> (event, 'a) action" where
  "failGeneration codesignResult =
     andThen
       (let errText = errorsOrEmpty codesignResult
        in if indexOf errText ''403 Forbidden'' > - 1
           then andThen (emit (LoggerTrace [Str (''Codesign errors: '' @ errText)]))
                  (\<lambda>_. ret serviceUnavailableMessage)
           else ret errText)
       (\<lambda>errText.
          throw \<lparr>message = ''Codesign failed. Reason is: '' @ errText @ ''.'',
                 err_stderr = stderr codesignResult,
                 err_buildId = None\<rparr>)"

text \<open>The rest of executeGeneration, once the manifest has build items.\<close>

definition finishGeneration ::
    "codesign_env \<Rightarrow> codesign_data \<Rightarrow> string \<Rightarrow> project_data \<Rightarrow> server_response
      \<Rightarrow> build_server_result \<Rightarrow> (event, codesign_result_data) action" where
  "finishGeneration env codesignData buildId projectData codesignResponse codesignResult =
     andThen (emit (LoggerInfo (''Finished '' @ codesignInformationString
                @ '' successfully. Downloading result...''))) (\<lambda>_.
     andThen (perform
                (DownloadServerResults codesignResult
                   \<lparr>out_projectDir = pd_projectDir projectData,
                    out_platform = platform codesignData, emulator = False\<rparr>)
                (downloadServerResults env codesignResult
                   \<lparr>out_projectDir = pd_projectDir projectData,
                    out_platform = platform codesignData, emulator = False\<rparr>))
       (\<lambda>localCodesignResults.
     andThen (emit (LoggerInfo (''The result of '' @ codesignInformationString
                @ '' successfully downloaded. Codesign files paths: ''
                @ array_toString localCodesignResults))) (\<lambda>_.
     andThen (perform (GetContentOfS3File (resultUrl codesignResponse))
                (getContentOfS3File env (resultUrl codesignResponse)))
       (\<lambda>fullOutput.
     ret \<lparr>res_buildId = buildId,
          res_stderr = stderr codesignResult,
          res_stdout = stdout codesignResult,
          res_fullOutput = fullOutput,
          res_outputFilesPaths = localCodesignResults\<rparr>))))"

definition noBuildItems :: "build_server_result \<Rightarrow> bool" where
  "noBuildItems codesignResult =
     (case buildItems codesignResult of None \<Rightarrow> True | Some xs \<Rightarrow> length xs = 0)"

definition executeGeneration ::
    "codesign_env \<Rightarrow> codesign_data \<Rightarrow> string \<Rightarrow> string \<Rightarrow> (event, codesign_result_data) action" where
  "executeGeneration env codesignData projectDir buildId =
     andThen (emit (LoggerInfo (''Starting '' @ codesignInformationString @ ''.''))) (\<lambda>_.
     andThen (perform (GetProjectData projectDir) (getProjectData env projectDir))
       (\<lambda>projectData.
     andThen (prepareCodesignRequest env buildId codesignData projectData)
       (\<lambda>codesignRequest.
     andThen (perform (ServerGenerateCodesignFiles codesignRequest)
                (serverGenerateCodesignFiles env codesignRequest))
       (\<lambda>codesignResponse.
     andThen (emit (LoggerTrace [Str ''Codesign response: '', ResponseJson codesignResponse])) (\<lambda>_.
     andThen (tryCatch
                (perform (WaitForServerOperationToFinish buildId codesignResponse)
                   (waitForServerOperationToFinish env buildId codesignResponse))
                (\<lambda>ex. emit (LoggerTrace [Str ''Codesign generation failed with err: '', ErrObj ex])))
       (\<lambda>_.
     andThen (perform (GetObjectFromS3File (resultUrl codesignResponse))
                (getObjectFromS3File env (resultUrl codesignResponse)))
       (\<lambda>codesignResult.
     andThen (emit (LoggerTrace [Str ''Codesign result:''])) (\<lambda>_.
     andThen (emit (LoggerTrace [ResultObj codesignResult])) (\<lambda>_.
     if noBuildItems codesignResult
     then failGeneration codesignResult
     else finishGeneration env codesignData buildId projectData codesignResponse
            codesignResult)))))))))"

text \<open>
  generateCodesignFiles.  The source assigns the defaulted \<^verbatim>\<open>clean\<close> to the caller's
  object; the model passes the updated record on.  Reading \<^verbatim>\<open>codesignData.clean\<close> of
  a missing object would throw a TypeError, which the validation before it excludes.
\<close>

definition generateCodesignFiles ::
    "codesign_env \<Rightarrow> codesign_data option \<Rightarrow> string \<Rightarrow> (event, codesign_result_data) action" where
  "generateCodesignFiles env codesignData projectDir =
     andThen (validateParameteres codesignData projectDir) (\<lambda>_.
     case codesignData of
       None \<Rightarrow> throw \<lparr>message = ''TypeError: Cannot read property clean of undefined'',
                      err_stderr = None, err_buildId = None\<rparr>
     | Some d \<Rightarrow>
         (let codesignData' = d\<lparr>clean := (if clean d = None then Some True else clean d)\<rparr>
          in andThen (perform UuidV4 (Inr (uuid_v4 env))) (\<lambda>buildId.
             tryCatch (executeGeneration env codesignData' projectDir buildId)
               (\<lambda>err. throw (err\<lparr>err_buildId := Some buildId\<rparr>)))))"

definition manifestItems :: "build_server_result \<Rightarrow> server_item list" where
  "manifestItems codesignResult = (case buildItems codesignResult of None \<Rightarrow> [] | Some xs \<Rightarrow> xs)"

text \<open>The manifest fetches (getObjectFromS3File) among the effects.\<close>

fun isManifestFetch :: "event \<Rightarrow> bool" where
  "isManifestFetch (GetObjectFromS3File u) = True"
| "isManifestFetch ev = False"

text \<open>The downloads of the full output (getContentOfS3File) among the effects.\<close>

fun isContentFetch :: "event \<Rightarrow> bool" where
  "isContentFetch (GetContentOfS3File u) = True"
| "isContentFetch ev = False"

section \<open>The build command helper\<close>

text \<open>
  The command line options (\<^verbatim>\<open>$options\<close>) the helper reads.  Their declaration is not
  part of the sources at hand: flags are optional booleans, the others optional strings.
\<close>

record cloud_options =
  opt_release :: "bool option"
  opt_local :: "bool option"
  opt_clean :: "bool option"
  opt_bundle :: "bool option"
  opt_emulator :: "bool option"
  opt_env :: "string option"
  opt_keyStorePath :: "string option"
  opt_keyStorePassword :: "string option"
  opt_keyStoreAlias :: "string option"
  opt_keyStoreAliasPassword :: "string option"
  opt_certificate :: "string option"
  opt_certificatePassword :: "string option"
  opt_provision :: "string option"
  opt_accountId :: "string option"
  opt_teamId :: "string option"
  opt_device :: "string option"
  opt_path :: "string option"
  opt_platformTemplate :: "string option"

record package_json =
  nativescript :: "string option"

record project_settings =
  nativescriptData :: "string option"
  ps_projectDir :: string
  ps_projectId :: string
  ps_projectName :: string
  ps_bundle :: bool
  ps_clean :: "bool option"
  ps_env :: "string option"

record android_build_data =
  android_pathToCertificate :: string
  android_certificatePassword :: "string option"

record ios_build_data =
  ios_pathToCertificate :: string
  ios_certificatePassword :: "string option"
  pathToProvision :: string
  buildForDevice :: bool

record build_data =
  projectSettings :: project_settings
  bd_platform :: string
  buildConfiguration :: string
  androidBuildData :: android_build_data
  iOSBuildData :: ios_build_data

record local_build_options =
  lb_release :: bool
  lb_buildForDevice :: bool
  lb_clean :: "bool option"
  lb_teamId :: "string option"
  lb_bundle :: bool
  lb_device :: "string option"
  lb_projectDir :: "string option"
  lb_provision :: "string option"
  lb_keyStoreAlias :: "string option"
  lb_keyStoreAliasPassword :: "string option"
  lb_keyStorePassword :: "string option"
  lb_keyStorePath :: "string option"
  lb_env :: "string option"

record qr_data =
  originalUrl :: string

record build_result_data =
  qrData :: qr_data

text \<open>
  The collaborators of BuildCommandHelper (the mobile helper, the file system, Node's
  \<^verbatim>\<open>path\<close>, the helper \<^verbatim>\<open>getProjectId\<close>, the cloud and the local build service),
  with the injected options and project data.
\<close>

record build_env =
  validatePlatformName :: "string \<Rightarrow> std_error + string"
  isAndroidPlatform :: "string \<Rightarrow> bool"
  isiOSPlatform :: "string \<Rightarrow> bool"
  platformNames :: "string list"
  readJson :: "string \<Rightarrow> std_error + package_json"
  join_path :: "string list \<Rightarrow> string"
  resolve_path :: "string \<Rightarrow> string"
  lower_case :: "string \<Rightarrow> string"
  getProjectId :: "project_data \<Rightarrow> string \<Rightarrow> string"
  cloudBuild :: "project_settings \<Rightarrow> string \<Rightarrow> string \<Rightarrow> string option
                  \<Rightarrow> android_build_data \<Rightarrow> ios_build_data \<Rightarrow> std_error + build_result_data"
  localBuild :: "string \<Rightarrow> local_build_options \<Rightarrow> string option \<Rightarrow> std_error + string"
  cli_options :: cloud_options
  cli_projectData :: project_data

datatype build_event =
    ValidatePlatformName string
  | BuildLoggerInfo string
  | ReadJson string
  | CloudBuild project_settings string string "string option" android_build_data ios_build_data
  | LocalBuild string local_build_options "string option"

text \<open>\<^verbatim>\<open>p ? path.resolve(p) : ""\<close> for an optional string \<open>p\<close>.\<close>

definition resolveOrEmpty :: "build_env \<Rightarrow> string option \<Rightarrow> string" where
  "resolveOrEmpty env p =
     (if falsy_string p then [] else (case p of None \<Rightarrow> [] | Some q \<Rightarrow> resolve_path env q))"

definition getCloudBuildData :: "constants \<Rightarrow> build_env \<Rightarrow> string \<Rightarrow> (build_event, build_data) action" where
  "getCloudBuildData c env platformArg =
     andThen (perform (ValidatePlatformName platformArg) (validatePlatformName env platformArg))
       (\<lambda>platform.
     andThen (emit (BuildLoggerInfo (''Executing cloud build with platform: '' @ platform @ ''.''))) (\<lambda>_.
     andThen (perform (ReadJson (join_path env [pd_projectDir (cli_projectData env), ''package.json'']))
                (readJson env (join_path env [pd_projectDir (cli_projectData env), ''package.json''])))
       (\<lambda>packageJson.
     andThen
       (if isAndroidPlatform env platform
        then ret (resolveOrEmpty env (opt_keyStorePath (cli_options env)))
        else if isiOSPlatform env platform
        then ret (resolveOrEmpty env (opt_certificate (cli_options env)))
        else ([], failWithoutHelp (''Currently only '' @ array_join '' '' (platformNames env)
                @ '' platforms are supported.'')))
       (\<lambda>pathToCertificate.
     ret \<lparr>projectSettings =
            \<lparr>nativescriptData = nativescript packageJson,
             ps_projectDir = pd_projectDir (cli_projectData env),
             ps_projectId = getProjectId env (cli_projectData env) (lower_case env platform),
             ps_projectName = pd_projectName (cli_projectData env),
             ps_bundle = (\<not> falsy_bool (opt_bundle (cli_options env))),
             ps_clean = opt_clean (cli_options env),
             ps_env = opt_env (cli_options env)\<rparr>,
          bd_platform = platform,
          buildConfiguration =
            (if \<not> falsy_bool (opt_release (cli_options env)) then RELEASE c else DEBUG c),
          androidBuildData =
            \<lparr>android_pathToCertificate = pathToCertificate,
             android_certificatePassword = opt_keyStorePassword (cli_options env)\<rparr>,
          iOSBuildData =
            \<lparr>ios_pathToCertificate = pathToCertificate,
             ios_certificatePassword = opt_certificatePassword (cli_options env),
             pathToProvision = resolveOrEmpty env (opt_provision (cli_options env)),
             buildForDevice = falsy_bool (opt_emulator (cli_options env))\<rparr>\<rparr>))))"

definition buildForPublishingPlatform :: "constants \<Rightarrow> build_env \<Rightarrow> string \<Rightarrow> (build_event, string) action" where
  "buildForPublishingPlatform c env platformArg =
     andThen (perform (ValidatePlatformName platformArg) (validatePlatformName env platformArg))
       (\<lambda>platform.
     if \<not> falsy_bool (opt_local (cli_options env))
     then perform
            (LocalBuild platform
               \<lparr>lb_release = True, lb_buildForDevice = True,
                lb_clean = opt_clean (cli_options env),
                lb_teamId = opt_teamId (cli_options env),
                lb_bundle = (\<not> falsy_bool (opt_bundle (cli_options env))),
                lb_device = opt_device (cli_options env),
                lb_projectDir = opt_path (cli_options env),
                lb_provision = opt_provision (cli_options env),
                lb_keyStoreAlias = opt_keyStoreAlias (cli_options env),
                lb_keyStoreAliasPassword = opt_keyStoreAliasPassword (cli_options env),
                lb_keyStorePassword = opt_keyStorePassword (cli_options env),
                lb_keyStorePath = opt_keyStorePath (cli_options env),
                lb_env = opt_env (cli_options env)\<rparr>
               (opt_platformTemplate (cli_options env)))
            (localBuild env platform
               \<lparr>lb_release = True, lb_buildForDevice = True,
                lb_clean = opt_clean (cli_options env),
                lb_teamId = opt_teamId (cli_options env),
                lb_bundle = (\<not> falsy_bool (opt_bundle (cli_options env))),
                lb_device = opt_device (cli_options env),
                lb_projectDir = opt_path (cli_options env),
                lb_provision = opt_provision (cli_options env),
                lb_keyStoreAlias = opt_keyStoreAlias (cli_options env),
                lb_keyStoreAliasPassword = opt_keyStoreAliasPassword (cli_options env),
                lb_keyStorePassword = opt_keyStorePassword (cli_options env),
                lb_keyStorePath = opt_keyStorePath (cli_options env),
                lb_env = opt_env (cli_options env)\<rparr>
               (opt_platformTemplate (cli_options env)))
     else
       andThen (getCloudBuildData c env platform) (\<lambda>buildData0.
       let buildData = buildData0\<lparr>buildConfiguration := RELEASE c\<rparr>
       in andThen
            (perform
               (CloudBuild (projectSettings buildData) (bd_platform buildData)
                  (buildConfiguration buildData) (opt_accountId (cli_options env))
                  (androidBuildData buildData) (iOSBuildData buildData))
               (cloudBuild env (projectSettings buildData) (bd_platform buildData)
                  (buildConfiguration buildData) (opt_accountId (cli_options env))
                  (androidBuildData buildData) (iOSBuildData buildData)))
            (\<lambda>buildResult. ret (originalUrl (qrData buildResult)))))"

section \<open>Concrete inputs\<close>

text \<open>A set of collaborators and inputs at which the theorems below are evaluated.\<close>

definition exampleConstants :: constants where
  "exampleConstants =
     \<lparr>CERTIFICATE = ''Certificate'', PROVISION = ''Provision'',
      CODESIGN_FILES_DIR_NAME = ''codesign_files'', RELEASE = ''Release'', DEBUG = ''Debug''\<rparr>"

definition exampleCodesignData :: codesign_data where
  "exampleCodesignData =
     \<lparr>username = Some ''dev@example.com'', password = Some ''secret'', clean = None,
      platform = ''iOS'', sharedCloud = None, attachedDevices = []\<rparr>"

definition exampleResponse :: server_response where
  "exampleResponse = \<lparr>resultUrl = ''https://s3/result.json'', logsUrl = None\<rparr>"

definition exampleEnv :: "build_server_result \<Rightarrow> std_error + unit \<Rightarrow> codesign_env" where
  "exampleEnv manifest waitOutcome =
     \<lparr>uuid_v4 = ''b1'',
      getProjectData =
        (\<lambda>dir. Inr \<lparr>pd_projectDir = dir, pd_projectName = ''app'', pd_projectId = ''org.app''\<rparr>),
      sanitizeName = (\<lambda>n. Inr n),
      serverGenerateCodesignFiles = (\<lambda>req. Inr exampleResponse),
      waitForServerOperationToFinish = (\<lambda>b resp. waitOutcome),
      getObjectFromS3File = (\<lambda>url. Inr manifest),
      downloadServerResults = (\<lambda>res opts. Inr [''/app/codesign_files/ios/cert.p12'']),
      getContentOfS3File = (\<lambda>url. Inr ''{}'')\<rparr>"

definition forbiddenManifest :: build_server_result where
  "forbiddenManifest =
     \<lparr>buildItems = Some [], errors = Some ''Request failed: 403 Forbidden'',
      stderr = None, stdout = None\<rparr>"

definition failedManifest :: build_server_result where
  "failedManifest =
     \<lparr>buildItems = None, errors = Some ''Invalid credentials'',
      stderr = Some ''exit code 1'', stdout = None\<rparr>"

definition certificateManifest :: build_server_result where
  "certificateManifest =
     \<lparr>buildItems = Some [\<lparr>disposition = ''Certificate'', filename = ''cert.p12'',
                           fullPath = ''https://s3/cert.p12''\<rparr>],
      errors = None, stderr = None, stdout = None\<rparr>"

definition timeoutError :: std_error where
  "timeoutError = \<lparr>message = ''Timeout'', err_stderr = None, err_buildId = None\<rparr>"

definition exampleOptions :: cloud_options where
  "exampleOptions =
     \<lparr>opt_release = Some False, opt_local = None, opt_clean = None, opt_bundle = None,
      opt_emulator = None, opt_env = None, opt_keyStorePath = None,
      opt_keyStorePassword = None, opt_keyStoreAlias = None,
      opt_keyStoreAliasPassword = None, opt_certificate = None,
      opt_certificatePassword = None, opt_provision = None, opt_accountId = Some ''acc'',
      opt_teamId = None, opt_device = None, opt_path = None, opt_platformTemplate = None\<rparr>"

definition exampleBuildEnv :: build_env where
  "exampleBuildEnv =
     \<lparr>validatePlatformName = (\<lambda>p. Inr p),
      isAndroidPlatform = (\<lambda>p. p = ''Android''),
      isiOSPlatform = (\<lambda>p. p = ''iOS''),
      platformNames = [''iOS'', ''Android''],
      readJson = (\<lambda>f. Inr \<lparr>nativescript = Some ''{}''\<rparr>),
      join_path = array_join ''/'',
      resolve_path = (\<lambda>p. p),
      lower_case = (\<lambda>p. if p = ''Android'' then ''android'' else p),
      getProjectId = (\<lambda>pd p. pd_projectId pd),
      cloudBuild = (\<lambda>ps p cfg acc a i. Inr \<lparr>qrData = \<lparr>originalUrl = ''https://s3/app.apk''\<rparr>\<rparr>),
      localBuild = (\<lambda>p l t. Inr ''/app/platforms/android/app.apk''),
      cli_options = exampleOptions,
      cli_projectData = \<lparr>pd_projectDir = ''/app'', pd_projectName = ''app'', pd_projectId = ''org.app''\<rparr>\<rparr>"

section \<open>Facts about the helpers\<close>

lemma andThen_ret: "andThen (ret x) f = f x"
  by (simp add: andThen_def ret_def split: prod.splits)

lemma andThen_throw: "andThen (throw e) f = throw e"
  by (simp add: andThen_def throw_def)

lemma andThen_fail: "andThen ([], Inl e) f = ([], Inl e)"
  by (simp add: andThen_def)

lemma andThen_emit: "andThen (emit ev) f = (ev # fst (f ()), snd (f ()))"
  by (simp add: andThen_def emit_def split: prod.splits)

lemma andThen_perform:
  "andThen (perform ev outcome) f =
     (case outcome of Inl e \<Rightarrow> ([ev], Inl e) | Inr x \<Rightarrow> (ev # fst (f x), snd (f x)))"
  by (simp add: andThen_def perform_def split: prod.splits sum.splits)

lemma tryCatch_perform_emit:
  "tryCatch (perform ev outcome) (\<lambda>ex. emit (h ex)) =
     (case outcome of Inl e \<Rightarrow> ([ev, h e], Inr ()) | Inr x \<Rightarrow> ([ev], Inr x))"
  by (simp add: tryCatch_def perform_def emit_def split: sum.splits)

lemma andThen_pair: "andThen (evs, Inr x) f = (evs @ fst (f x), snd (f x))"
  by (simp add: andThen_def split: prod.splits)

lemma andThen_pair_fail: "andThen (evs, Inl e) f = (evs, Inl e)"
  by (simp add: andThen_def)

lemma andThen_outcome:
  "andThen m f =
     (case snd m of Inl e \<Rightarrow> (fst m, Inl e) | Inr x \<Rightarrow> (fst m @ fst (f x), snd (f x)))"
  by (cases m) (simp add: andThen_def split: sum.splits prod.splits)

lemma tryCatch_pair: "tryCatch (evs, Inr x) h = (evs, Inr x)"
  by (simp add: tryCatch_def)

lemma tryCatch_pair_fail: "tryCatch (evs, Inl e) h = (evs @ fst (h e), snd (h e))"
  by (simp add: tryCatch_def split: prod.splits)

lemma tryCatch_rethrow:
  "tryCatch m (\<lambda>err. throw (g err)) =
     (fst m, case snd m of Inl e \<Rightarrow> Inl (g e) | Inr x \<Rightarrow> Inr x)"
  by (cases m) (simp add: tryCatch_def throw_def split: sum.splits)


lemma filter_array_eq_filter: "filter_array p xs = filter p xs"
  by (induction xs) simp_all

lemma lodash_filter_eq:
  "lodash_filter collection p = filter p (case collection of None \<Rightarrow> [] | Some xs \<Rightarrow> xs)"
  by (simp add: lodash_filter_def filter_array_eq_filter split: option.splits)

lemma count_list_filter_if:
  "count_list (filter p xs) b = (if p b then count_list xs b else 0)"
  by (induction xs) auto

lemma indexOf_from_bounds: "indexOf_from s t i = - 1 \<or> i \<le> indexOf_from s t i"
  by (induction s arbitrary: i) (auto, force)

lemma indexOf_from_found: "0 \<le> i \<Longrightarrow> (- 1 < indexOf_from s t i) = sublist t s"
proof (induction s arbitrary: i)
  case Nil
  then show ?case by auto
next
  case (Cons c cs)
  have "(- 1 < indexOf_from cs t (i + 1)) = sublist t cs"
    using Cons.prems by (intro Cons.IH) simp
  with Cons.prems show ?case
    by (auto simp: sublist_Cons_right)
qed

lemma indexOf_found: "(- 1 < indexOf s t) = sublist t s"
  by (simp add: indexOf_def indexOf_from_found)

lemma sublist_trans: "sublist xs ys \<Longrightarrow> sublist ys zs \<Longrightarrow> sublist xs zs"
  by (rule sublist_order.order_trans)

lemmas action_simps = andThen_ret andThen_throw andThen_fail andThen_emit andThen_perform
  tryCatch_perform_emit tryCatch_rethrow andThen_pair andThen_pair_fail tryCatch_pair
  tryCatch_pair_fail

lemmas example_defs = exampleConstants_def exampleCodesignData_def exampleResponse_def
  exampleEnv_def forbiddenManifest_def failedManifest_def certificateManifest_def
  timeoutError_def exampleOptions_def exampleBuildEnv_def

lemmas run_defs = generateCodesignFiles_def validateParameteres_def failWithoutHelp_def
  executeGeneration_def prepareCodesignRequest_def failGeneration_def finishGeneration_def
  noBuildItems_def errorsOrEmpty_def falsy_string_def codesignInformationString_def
  serviceUnavailableMessage_def array_toString_def indexOf_def

subsection \<open>The run of executeGeneration\<close>

lemma failGeneration_outcome:
  "(failGeneration manifest :: (event, 'a) action) =
     (if sublist ''403 Forbidden'' (errorsOrEmpty manifest)
      then ([LoggerTrace [Str (''Codesign errors: '' @ errorsOrEmpty manifest)]],
            Inl \<lparr>message = ''Codesign failed. Reason is: '' @ serviceUnavailableMessage @ ''.'',
                 err_stderr = stderr manifest, err_buildId = None\<rparr>)
      else ([], Inl \<lparr>message = ''Codesign failed. Reason is: '' @ errorsOrEmpty manifest @ ''.'',
                 err_stderr = stderr manifest, err_buildId = None\<rparr>))"
  by (simp add: failGeneration_def Let_def indexOf_found action_simps throw_def ret_def)

lemma finishGeneration_events:
  "ev \<in> set (fst (finishGeneration env cd b pd resp manifest)) \<Longrightarrow>
     \<not> isManifestFetch ev \<and> (\<forall>args. ev \<noteq> LoggerTrace args)"
  by (auto simp: finishGeneration_def action_simps ret_def split: sum.splits)

lemma finishGeneration_content:
  "filter isContentFetch (fst (finishGeneration env cd b pd resp manifest)) = []
   \<or> filter isContentFetch (fst (finishGeneration env cd b pd resp manifest))
       = [GetContentOfS3File (resultUrl resp)]"
  and finishGeneration_content_returned:
  "snd (finishGeneration env cd b pd resp manifest) = Inr r \<Longrightarrow>
     filter isContentFetch (fst (finishGeneration env cd b pd resp manifest))
       = [GetContentOfS3File (resultUrl resp)]"
  by (auto simp: finishGeneration_def action_simps ret_def split: sum.splits)

lemma executeGeneration_events:
  "ev \<in> set (fst (executeGeneration env cd pdir b)) \<Longrightarrow>
     ev \<noteq> UuidV4
     \<and> (\<forall>req. ev = ServerGenerateCodesignFiles req \<longrightarrow> req_buildId req = b \<and> req_clean req = clean cd)
     \<and> (\<forall>b' resp. ev = WaitForServerOperationToFinish b' resp \<longrightarrow> b' = b)"
  by (auto simp: executeGeneration_def prepareCodesignRequest_def failGeneration_def
      finishGeneration_def action_simps Let_def throw_def ret_def split: sum.splits if_splits)

lemma executeGeneration_result:
  "snd (executeGeneration env cd pdir b) = Inr r \<Longrightarrow> res_buildId r = b"
  by (auto simp: executeGeneration_def prepareCodesignRequest_def failGeneration_def
      finishGeneration_def action_simps Let_def throw_def ret_def split: sum.splits if_splits)

lemma executeGeneration_sends_request:
  assumes "getProjectData env pdir = Inr pd"
    and "sanitizeName env (pd_projectName pd) = Inr n"
  shows "ServerGenerateCodesignFiles
           \<lparr>req_buildId = b, appId = pd_projectId pd, appName = n, req_clean = clean cd,
            req_username = username cd, req_password = password cd,
            req_sharedCloud = sharedCloud cd, devices = attachedDevices cd\<rparr>
         \<in> set (fst (executeGeneration env cd pdir b))"
  using assms
  by (auto simp: executeGeneration_def prepareCodesignRequest_def action_simps ret_def
      split: sum.splits)

lemma executeGeneration_reaches_fetch:
  assumes "GetObjectFromS3File url \<in> set (fst (executeGeneration env cd pdir b))"
  shows "\<exists>pd n resp. getProjectData env pdir = Inr pd
           \<and> sanitizeName env (pd_projectName pd) = Inr n
           \<and> serverGenerateCodesignFiles env
                \<lparr>req_buildId = b, appId = pd_projectId pd, appName = n, req_clean = clean cd,
                 req_username = username cd, req_password = password cd,
                 req_sharedCloud = sharedCloud cd, devices = attachedDevices cd\<rparr> = Inr resp
           \<and> url = resultUrl resp"
  using assms
  by (auto simp: executeGeneration_def prepareCodesignRequest_def failGeneration_outcome
      finishGeneration_def action_simps ret_def split: sum.splits if_splits)

lemma executeGeneration_reaches_wait:
  assumes "WaitForServerOperationToFinish b' resp \<in> set (fst (executeGeneration env cd pdir b))"
  shows "\<exists>pd n. getProjectData env pdir = Inr pd
           \<and> sanitizeName env (pd_projectName pd) = Inr n
           \<and> serverGenerateCodesignFiles env
                \<lparr>req_buildId = b, appId = pd_projectId pd, appName = n, req_clean = clean cd,
                 req_username = username cd, req_password = password cd,
                 req_sharedCloud = sharedCloud cd, devices = attachedDevices cd\<rparr> = Inr resp
           \<and> b' = b"
  using assms
  by (auto simp: executeGeneration_def prepareCodesignRequest_def failGeneration_outcome
      finishGeneration_def action_simps ret_def split: sum.splits if_splits)

text \<open>The run once the server has accepted the request: the effects and the outcome, by
  the outcome of the polling and of the fetch.\<close>

lemma executeGeneration_started:
  assumes "getProjectData env pdir = Inr pd"
    and "sanitizeName env (pd_projectName pd) = Inr n"
    and "serverGenerateCodesignFiles env
                \<lparr>req_buildId = b, appId = pd_projectId pd, appName = n, req_clean = clean cd,
                 req_username = username cd, req_password = password cd,
                 req_sharedCloud = sharedCloud cd, devices = attachedDevices cd\<rparr> = Inr resp"
  shows "executeGeneration env cd pdir b =
     ([LoggerInfo ''Starting generation of iOS certificate and provision files.'',
       GetProjectData pdir, SanitizeName (pd_projectName pd),
       ServerGenerateCodesignFiles
         \<lparr>req_buildId = b, appId = pd_projectId pd, appName = n, req_clean = clean cd,
          req_username = username cd, req_password = password cd,
          req_sharedCloud = sharedCloud cd, devices = attachedDevices cd\<rparr>,
       LoggerTrace [Str ''Codesign response: '', ResponseJson resp],
       WaitForServerOperationToFinish b resp]
      @ (case waitForServerOperationToFinish env b resp of
           Inl ex \<Rightarrow> [LoggerTrace [Str ''Codesign generation failed with err: '', ErrObj ex]]
         | Inr u \<Rightarrow> [])
      @ GetObjectFromS3File (resultUrl resp)
        # (case getObjectFromS3File env (resultUrl resp) of
             Inl e \<Rightarrow> []
           | Inr manifest \<Rightarrow>
               LoggerTrace [Str ''Codesign result:''] # LoggerTrace [ResultObj manifest]
               # fst (if noBuildItems manifest then failGeneration manifest
                      else finishGeneration env cd b pd resp manifest)),
      case getObjectFromS3File env (resultUrl resp) of
        Inl e \<Rightarrow> Inl e
      | Inr manifest \<Rightarrow>
          snd (if noBuildItems manifest then failGeneration manifest
               else finishGeneration env cd b pd resp manifest))"
  using assms
  by (simp add: executeGeneration_def prepareCodesignRequest_def codesignInformationString_def
      action_simps ret_def split: sum.splits)

lemma executeGeneration_no_items:
  assumes "GetObjectFromS3File url \<in> set (fst (executeGeneration env cd pdir b))"
    and "getObjectFromS3File env url = Inr manifest"
    and "noBuildItems manifest"
  shows "snd (executeGeneration env cd pdir b)
           = snd (failGeneration manifest :: (event, codesign_result_data) action)"
    and "DownloadServerResults r opts \<notin> set (fst (executeGeneration env cd pdir b))"
    and "set (fst (failGeneration manifest :: (event, codesign_result_data) action))
          \<subseteq> set (fst (executeGeneration env cd pdir b))"
    and "LoggerInfo s \<in> set (fst (executeGeneration env cd pdir b))
           \<Longrightarrow> s = ''Starting generation of iOS certificate and provision files.''"
proof -
  from executeGeneration_reaches_fetch [OF assms(1)] obtain pd n resp where
    pd: "getProjectData env pdir = Inr pd"
    and n: "sanitizeName env (pd_projectName pd) = Inr n"
    and resp: "serverGenerateCodesignFiles env
                \<lparr>req_buildId = b, appId = pd_projectId pd, appName = n, req_clean = clean cd,
                 req_username = username cd, req_password = password cd,
                 req_sharedCloud = sharedCloud cd, devices = attachedDevices cd\<rparr> = Inr resp"
    and url: "url = resultUrl resp"
    by blast
  note nf = executeGeneration_started [OF pd n resp]
  have fetch: "getObjectFromS3File env (resultUrl resp) = Inr manifest"
    using assms(2) url by simp
  show "snd (executeGeneration env cd pdir b)
          = snd (failGeneration manifest :: (event, codesign_result_data) action)"
    by (simp add: nf fetch assms(3))
  show "DownloadServerResults r opts \<notin> set (fst (executeGeneration env cd pdir b))"
    by (auto simp: nf fetch assms(3) failGeneration_outcome split: sum.splits)
  show "set (fst (failGeneration manifest :: (event, codesign_result_data) action))
          \<subseteq> set (fst (executeGeneration env cd pdir b))"
    by (auto simp: nf fetch assms(3))
  show "s = ''Starting generation of iOS certificate and provision files.''"
    if "LoggerInfo s \<in> set (fst (executeGeneration env cd pdir b))"
    using that
    by (auto simp: nf fetch assms(3) failGeneration_outcome split: sum.splits if_splits)
qed

lemma executeGeneration_wait_failed:
  assumes "WaitForServerOperationToFinish b' resp \<in> set (fst (executeGeneration env cd pdir b))"
    and "waitForServerOperationToFinish env b' resp = Inl ex"
  shows "filter isManifestFetch (fst (executeGeneration env cd pdir b))
           = [GetObjectFromS3File (resultUrl resp)]"
    and "LoggerTrace [Str ''Codesign generation failed with err: '', ErrObj ex]
          \<in> set (fst (executeGeneration env cd pdir b))"
    and "snd (executeGeneration env cd pdir b)
         = snd (executeGeneration (env\<lparr>waitForServerOperationToFinish := (\<lambda>b r. Inr ())\<rparr>) cd pdir b)"
    and "filter (\<lambda>ev. ev \<noteq> LoggerTrace [Str ''Codesign generation failed with err: '', ErrObj ex])
          (fst (executeGeneration env cd pdir b))
         = fst (executeGeneration (env\<lparr>waitForServerOperationToFinish := (\<lambda>b r. Inr ())\<rparr>) cd pdir b)"
    and "\<exists>pre post. fst (executeGeneration env cd pdir b)
           = pre @ [WaitForServerOperationToFinish b' resp,
                    LoggerTrace [Str ''Codesign generation failed with err: '', ErrObj ex],
                    GetObjectFromS3File (resultUrl resp)] @ post"
    and "filter isContentFetch (fst (executeGeneration env cd pdir b)) = []
         \<or> filter isContentFetch (fst (executeGeneration env cd pdir b))
             = [GetContentOfS3File (resultUrl resp)]"
    and "snd (executeGeneration env cd pdir b) = Inr r \<Longrightarrow>
           filter isContentFetch (fst (executeGeneration env cd pdir b))
             = [GetContentOfS3File (resultUrl resp)]"
proof -
  let ?env = "env\<lparr>waitForServerOperationToFinish := (\<lambda>b r. Inr ())\<rparr>"
  from executeGeneration_reaches_wait [OF assms(1)] obtain pd n where
    pd: "getProjectData env pdir = Inr pd"
    and n: "sanitizeName env (pd_projectName pd) = Inr n"
    and resp: "serverGenerateCodesignFiles env
                \<lparr>req_buildId = b, appId = pd_projectId pd, appName = n, req_clean = clean cd,
                 req_username = username cd, req_password = password cd,
                 req_sharedCloud = sharedCloud cd, devices = attachedDevices cd\<rparr> = Inr resp"
    and b: "b' = b"
    by blast
  note nf = executeGeneration_started [OF pd n resp]
  note nf2 = executeGeneration_started [of ?env pdir pd n b cd resp, simplified, OF pd n resp]
  have wait: "waitForServerOperationToFinish env b resp = Inl ex"
    using assms(2) b by simp
  have fin: "finishGeneration ?env cd b pd resp m = finishGeneration env cd b pd resp m" for m
    by (simp add: finishGeneration_def)
  have keep_fin: "filter (\<lambda>ev. ev \<noteq> LoggerTrace args) (fst (finishGeneration env cd b pd resp m))
      = fst (finishGeneration env cd b pd resp m)" for args m
    using finishGeneration_events by (simp add: filter_id_conv)
  have fetch_fin: "filter isManifestFetch (fst (finishGeneration env cd b pd resp m)) = []" for m
    using finishGeneration_events by (simp add: filter_empty_conv)
  show "filter isManifestFetch (fst (executeGeneration env cd pdir b))
          = [GetObjectFromS3File (resultUrl resp)]"
    by (simp add: nf wait fetch_fin failGeneration_outcome split: sum.splits)
  show "LoggerTrace [Str ''Codesign generation failed with err: '', ErrObj ex]
          \<in> set (fst (executeGeneration env cd pdir b))"
    by (simp add: nf wait)
  show "snd (executeGeneration env cd pdir b) = snd (executeGeneration ?env cd pdir b)"
    by (simp add: nf nf2 fin split: sum.splits)
  show "filter (\<lambda>ev. ev \<noteq> LoggerTrace [Str ''Codesign generation failed with err: '', ErrObj ex])
          (fst (executeGeneration env cd pdir b)) = fst (executeGeneration ?env cd pdir b)"
    by (simp add: nf nf2 wait fin keep_fin failGeneration_outcome split: sum.splits)
  have "fst (executeGeneration env cd pdir b)
      = [LoggerInfo ''Starting generation of iOS certificate and provision files.'',
         GetProjectData pdir, SanitizeName (pd_projectName pd),
         ServerGenerateCodesignFiles
           \<lparr>req_buildId = b, appId = pd_projectId pd, appName = n, req_clean = clean cd,
            req_username = username cd, req_password = password cd,
            req_sharedCloud = sharedCloud cd, devices = attachedDevices cd\<rparr>,
         LoggerTrace [Str ''Codesign response: '', ResponseJson resp]]
        @ [WaitForServerOperationToFinish b' resp,
           LoggerTrace [Str ''Codesign generation failed with err: '', ErrObj ex],
           GetObjectFromS3File (resultUrl resp)]
        @ (case getObjectFromS3File env (resultUrl resp) of
             Inl e \<Rightarrow> []
           | Inr manifest \<Rightarrow>
               LoggerTrace [Str ''Codesign result:''] # LoggerTrace [ResultObj manifest]
               # fst (if noBuildItems manifest then failGeneration manifest
                      else finishGeneration env cd b pd resp manifest))"
    by (simp add: nf wait b)
  then show "\<exists>pre post. fst (executeGeneration env cd pdir b)
           = pre @ [WaitForServerOperationToFinish b' resp,
                    LoggerTrace [Str ''Codesign generation failed with err: '', ErrObj ex],
                    GetObjectFromS3File (resultUrl resp)] @ post"
    by blast
  show "filter isContentFetch (fst (executeGeneration env cd pdir b)) = []
         \<or> filter isContentFetch (fst (executeGeneration env cd pdir b))
             = [GetContentOfS3File (resultUrl resp)]"
    using finishGeneration_content [of env cd b pd resp]
    by (auto simp: nf wait failGeneration_outcome split: sum.splits)
  show "filter isContentFetch (fst (executeGeneration env cd pdir b))
             = [GetContentOfS3File (resultUrl resp)]"
    if "snd (executeGeneration env cd pdir b) = Inr r"
    using that finishGeneration_content_returned [of env cd b pd resp _ r]
    by (auto simp: nf wait failGeneration_outcome split: sum.splits if_splits)
qed

subsection \<open>The run of generateCodesignFiles\<close>

lemma validateParameteres_passed:
  "validateParameteres codesignData projectDir = ([], Inr ()) \<Longrightarrow>
     \<exists>d. codesignData = Some d \<and> \<not> falsy_string (username d) \<and> \<not> falsy_string (password d)
       \<and> projectDir \<noteq> []"
  by (auto simp: validateParameteres_def failWithoutHelp_def action_simps ret_def
      split: option.splits if_splits)

lemma validateParameteres_cases:
  "validateParameteres codesignData projectDir = ([], Inr ())
   \<or> (\<exists>e. validateParameteres codesignData projectDir = ([], Inl e))"
  by (auto simp: validateParameteres_def failWithoutHelp_def action_simps ret_def)

lemma generateCodesignFiles_valid:
  "validateParameteres (Some d) projectDir = ([], Inr ()) \<Longrightarrow>
   generateCodesignFiles env (Some d) projectDir =
     (UuidV4 # fst (executeGeneration env
                      (d\<lparr>clean := (if clean d = None then Some True else clean d)\<rparr>)
                      projectDir (uuid_v4 env)),
      case snd (executeGeneration env
                  (d\<lparr>clean := (if clean d = None then Some True else clean d)\<rparr>)
                  projectDir (uuid_v4 env)) of
        Inl e \<Rightarrow> Inl (e\<lparr>err_buildId := Some (uuid_v4 env)\<rparr>)
      | Inr r \<Rightarrow> Inr r)"
  by (simp add: generateCodesignFiles_def action_simps Let_def)

lemma generateCodesignFiles_started:
  assumes "ev \<in> set (fst (generateCodesignFiles env codesignData projectDir))"
  shows "\<exists>d. codesignData = Some d \<and> validateParameteres (Some d) projectDir = ([], Inr ())"
proof -
  from validateParameteres_cases [of codesignData projectDir] show ?thesis
  proof
    assume v: "validateParameteres codesignData projectDir = ([], Inr ())"
    with validateParameteres_passed [OF v] show ?thesis
      by auto
  next
    assume "\<exists>e. validateParameteres codesignData projectDir = ([], Inl e)"
    then have "fst (generateCodesignFiles env codesignData projectDir) = []"
      by (auto simp: generateCodesignFiles_def action_simps)
    with assms show ?thesis
      by simp
  qed
qed

subsection \<open>The build command helper\<close>

lemma getCloudBuildData_events:
  "ev \<in> set (fst (getCloudBuildData c env p)) \<Longrightarrow>
     (\<forall>ps q cfg acc a i. ev \<noteq> CloudBuild ps q cfg acc a i) \<and> (\<forall>q l t. ev \<noteq> LocalBuild q l t)"
  by (auto simp: getCloudBuildData_def failWithoutHelp_def action_simps ret_def
      split: sum.splits if_splits)

lemma getCloudBuildData_configuration:
  "snd (getCloudBuildData c env p) = Inr bd \<Longrightarrow>
     buildConfiguration bd = (if falsy_bool (opt_release (cli_options env)) then DEBUG c else RELEASE c)"
  by (auto simp: getCloudBuildData_def failWithoutHelp_def action_simps ret_def
      split: sum.splits if_splits)

subsection \<open>Paths and lower case\<close>



















section \<open>Claims about getServerResults and the output directory\<close>

text \<open>
  C6: the guard \<^verbatim>\<open>if (!result)\<close> of getServerResults never fires, because the value
  tested is an array and every array is truthy.  For every server result the function
  returns the filtered list and never fails with the "No item with disposition ..." error.
\<close>

theorem C6_getServerResults_never_fails:
  "getServerResults c codesignResult
     = Inr (lodash_filter (buildItems codesignResult) (isCodesignItem c))
   \<and> (\<forall>e. getServerResults c codesignResult \<noteq> Inl e)"
  by (simp add: getServerResults_def truthy_array_def Let_def)

text \<open>
  C7: getServerResults returns exactly the build items of the manifest whose disposition
  is CERTIFICATE or PROVISION: an item is returned if and only if it is in the manifest
  with one of the two dispositions, as many times as it stands there, and the returned
  list is the manifest's list with the other items removed, so the relative order is kept.
\<close>

theorem C7_getServerResults_exact_in_order:
  "\<exists>res. getServerResults c codesignResult = Inr res
     \<and> res = filter (\<lambda>b. disposition b = CERTIFICATE c \<or> disposition b = PROVISION c)
               (manifestItems codesignResult)
     \<and> subseq res (manifestItems codesignResult)
     \<and> (\<forall>b. (b \<in> set res) =
            (b \<in> set (manifestItems codesignResult)
             \<and> (disposition b = CERTIFICATE c \<or> disposition b = PROVISION c)))
     \<and> (\<forall>b. count_list res b =
            (if disposition b = CERTIFICATE c \<or> disposition b = PROVISION c
             then count_list (manifestItems codesignResult) b else 0))"
proof -
  let ?p = "\<lambda>b. disposition b = CERTIFICATE c \<or> disposition b = PROVISION c"
  let ?items = "manifestItems codesignResult"
  have p: "isCodesignItem c = ?p"
    by (rule ext) (simp add: isCodesignItem_def)
  have res: "getServerResults c codesignResult = Inr (filter ?p ?items)"
    by (simp add: getServerResults_def truthy_array_def Let_def lodash_filter_eq
        manifestItems_def p)
  have sub: "subseq (filter ?p ?items) ?items"
    by (rule subseq_filter_left)
  have mem: "\<forall>b. (b \<in> set (filter ?p ?items)) = (b \<in> set ?items \<and> ?p b)"
    by simp
  have cnt: "\<forall>b. count_list (filter ?p ?items) b = (if ?p b then count_list ?items b else 0)"
    by (simp only: count_list_filter_if) simp
  from res sub mem cnt show ?thesis
    by blast
qed



section \<open>Claims about generateCodesignFiles\<close>

text \<open>
  C4: when codesignData is absent, or its username or password is missing (or empty), or
  projectDir is empty, generateCodesignFiles throws a validation error and has performed
  no effect at all: no network call was made, no build id was generated, and the error
  carries no buildId.
\<close>

theorem C4_validation_error_before_any_effect:
  assumes "codesignData = None
     \<or> (\<exists>d. codesignData = Some d \<and> (falsy_string (username d) \<or> falsy_string (password d)))
     \<or> projectDir = []"
  shows "\<exists>e. generateCodesignFiles env codesignData projectDir = ([], Inl e)
           \<and> filter isNetworkCall (fst (generateCodesignFiles env codesignData projectDir)) = []
           \<and> UuidV4 \<notin> set (fst (generateCodesignFiles env codesignData projectDir))
           \<and> err_buildId e = None
           \<and> (message e = ''Codesign failed. Reason is missing code sign data. Apple Id and Apple Id password are required..''
                \<or> message e = ''Codesign failed. Reason is invalid project path.'')"
  using assms
  by (auto simp: generateCodesignFiles_def validateParameteres_def failWithoutHelp_def
      action_simps ret_def split: option.splits)

theorem C4_validation_error_witness:
  "generateCodesignFiles (exampleEnv certificateManifest (Inr ()))
       (Some (exampleCodesignData\<lparr>password := None\<rparr>)) ''/app''
     = ([], Inl \<lparr>message = ''Codesign failed. Reason is missing code sign data. Apple Id and Apple Id password are required..'',
                 err_stderr = None, err_buildId = None\<rparr>)
   \<and> generateCodesignFiles (exampleEnv certificateManifest (Inr ())) (Some exampleCodesignData) []
     = ([], Inl \<lparr>message = ''Codesign failed. Reason is invalid project path.'',
                 err_stderr = None, err_buildId = None\<rparr>)"
proof -
  have h: "Some (exampleCodesignData\<lparr>password := None\<rparr>) = None
     \<or> (\<exists>d. Some (exampleCodesignData\<lparr>password := None\<rparr>) = Some d
            \<and> (falsy_string (username d) \<or> falsy_string (password d)))
     \<or> ''/app'' = []"
    by (simp add: falsy_string_def)
  from C4_validation_error_before_any_effect [OF h, of "exampleEnv certificateManifest (Inr ())"]
  show ?thesis
    by (simp add: run_defs example_defs action_simps ret_def)
qed

text \<open>
  C5: in a call that passes validation the build id is generated exactly once, as the
  first effect of the run and so before every network call; the request sent and the
  polling use that id; and whatever the run ends with carries it: an error thrown out of
  generateCodesignFiles has this id as its buildId, a result returned has it too.
\<close>

theorem C5_buildId_generated_once_and_attached:
  assumes "validateParameteres codesignData projectDir = ([], Inr ())"
  shows "\<exists>rest. fst (generateCodesignFiles env codesignData projectDir) = UuidV4 # rest
           \<and> UuidV4 \<notin> set rest
           \<and> (case snd (generateCodesignFiles env codesignData projectDir) of
                 Inl e \<Rightarrow> err_buildId e = Some (uuid_v4 env)
               | Inr r \<Rightarrow> res_buildId r = uuid_v4 env)
           \<and> (\<forall>req. ServerGenerateCodesignFiles req \<in> set rest \<longrightarrow> req_buildId req = uuid_v4 env)
           \<and> (\<forall>b resp. WaitForServerOperationToFinish b resp \<in> set rest \<longrightarrow> b = uuid_v4 env)"
proof -
  from validateParameteres_passed [OF assms] obtain d where d: "codesignData = Some d"
    by blast
  let ?cd = "d\<lparr>clean := (if clean d = None then Some True else clean d)\<rparr>"
  let ?exec = "executeGeneration env ?cd projectDir (uuid_v4 env)"
  have run: "generateCodesignFiles env codesignData projectDir =
      (UuidV4 # fst ?exec,
       case snd ?exec of Inl e \<Rightarrow> Inl (e\<lparr>err_buildId := Some (uuid_v4 env)\<rparr>) | Inr r \<Rightarrow> Inr r)"
    using assms unfolding d by (rule generateCodesignFiles_valid)
  have no_uuid: "UuidV4 \<notin> set (fst ?exec)"
    using executeGeneration_events by blast
  have outcome: "case snd (generateCodesignFiles env codesignData projectDir) of
                 Inl e \<Rightarrow> err_buildId e = Some (uuid_v4 env)
               | Inr r \<Rightarrow> res_buildId r = uuid_v4 env"
    by (simp add: run executeGeneration_result split: sum.splits)
  have reqs: "\<forall>req. ServerGenerateCodesignFiles req \<in> set (fst ?exec)
                \<longrightarrow> req_buildId req = uuid_v4 env"
    using executeGeneration_events by blast
  have waits: "\<forall>b resp. WaitForServerOperationToFinish b resp \<in> set (fst ?exec)
                \<longrightarrow> b = uuid_v4 env"
    using executeGeneration_events by blast
  from no_uuid outcome reqs waits show ?thesis
    by (simp add: run)
qed

theorem C5_buildId_witness:
  "validateParameteres (Some exampleCodesignData) ''/app'' = ([], Inr ())
   \<and> (\<exists>rest. fst (generateCodesignFiles (exampleEnv failedManifest (Inr ()))
                    (Some exampleCodesignData) ''/app'') = UuidV4 # rest
          \<and> UuidV4 \<notin> set rest)
   \<and> snd (generateCodesignFiles (exampleEnv failedManifest (Inr ()))
            (Some exampleCodesignData) ''/app'')
       = Inl \<lparr>message = ''Codesign failed. Reason is: Invalid credentials.'',
              err_stderr = Some ''exit code 1'', err_buildId = Some ''b1''\<rparr>"
proof -
  have h: "validateParameteres (Some exampleCodesignData) ''/app'' = ([], Inr ())"
    by (simp add: run_defs example_defs action_simps ret_def)
  have r: "snd (generateCodesignFiles (exampleEnv failedManifest (Inr ()))
            (Some exampleCodesignData) ''/app'')
       = Inl \<lparr>message = ''Codesign failed. Reason is: Invalid credentials.'',
              err_stderr = Some ''exit code 1'', err_buildId = Some ''b1''\<rparr>"
    by (simp add: run_defs example_defs action_simps ret_def throw_def Let_def)
  from C5_buildId_generated_once_and_attached [OF h, of "exampleEnv failedManifest (Inr ())"] h r
  show ?thesis
    by blast
qed

text \<open>
  C9: in a call that passes validation, every request sent to the server has the clean
  flag of codesignData with \<open>undefined\<close> replaced by true (an explicit false or true is
  passed through unchanged); and once the project data is read and the name sanitized,
  this request is sent.
\<close>

theorem C9_clean_defaults_to_true:
  assumes "validateParameteres (Some d) projectDir = ([], Inr ())"
  shows "(\<forall>req. ServerGenerateCodesignFiles req
                  \<in> set (fst (generateCodesignFiles env (Some d) projectDir))
            \<longrightarrow> req_clean req = Some (case clean d of None \<Rightarrow> True | Some b \<Rightarrow> b))
       \<and> (\<forall>pd n. getProjectData env projectDir = Inr pd
                  \<and> sanitizeName env (pd_projectName pd) = Inr n
            \<longrightarrow> ServerGenerateCodesignFiles
                  \<lparr>req_buildId = uuid_v4 env, appId = pd_projectId pd, appName = n,
                   req_clean = Some (case clean d of None \<Rightarrow> True | Some b \<Rightarrow> b),
                   req_username = username d, req_password = password d,
                   req_sharedCloud = sharedCloud d, devices = attachedDevices d\<rparr>
                \<in> set (fst (generateCodesignFiles env (Some d) projectDir)))"
proof -
  let ?cd = "d\<lparr>clean := (if clean d = None then Some True else clean d)\<rparr>"
  let ?exec = "executeGeneration env ?cd projectDir (uuid_v4 env)"
  have cl: "clean ?cd = Some (case clean d of None \<Rightarrow> True | Some b \<Rightarrow> b)"
    by (simp split: option.splits)
  have a: "\<forall>req. ServerGenerateCodesignFiles req \<in> set (fst ?exec) \<longrightarrow>
             req_clean req = Some (case clean d of None \<Rightarrow> True | Some b \<Rightarrow> b)"
    using executeGeneration_events [of _ env ?cd projectDir "uuid_v4 env"] cl by metis
  have b: "\<forall>pd n. getProjectData env projectDir = Inr pd
                 \<and> sanitizeName env (pd_projectName pd) = Inr n
            \<longrightarrow> ServerGenerateCodesignFiles
                  \<lparr>req_buildId = uuid_v4 env, appId = pd_projectId pd, appName = n,
                   req_clean = clean ?cd,
                   req_username = username d, req_password = password d,
                   req_sharedCloud = sharedCloud d, devices = attachedDevices d\<rparr>
                \<in> set (fst ?exec)"
    using executeGeneration_sends_request [of env projectDir _ _ "uuid_v4 env" ?cd] by simp
  from a b show ?thesis
    unfolding generateCodesignFiles_valid [OF assms] cl by simp
qed

theorem C9_clean_witness:
  "validateParameteres (Some exampleCodesignData) ''/app'' = ([], Inr ())
   \<and> clean exampleCodesignData = None
   \<and> ServerGenerateCodesignFiles
        \<lparr>req_buildId = ''b1'', appId = ''org.app'', appName = ''app'', req_clean = Some True,
         req_username = Some ''dev@example.com'', req_password = Some ''secret'',
         req_sharedCloud = None, devices = []\<rparr>
      \<in> set (fst (generateCodesignFiles (exampleEnv certificateManifest (Inr ()))
                     (Some exampleCodesignData) ''/app''))
   \<and> validateParameteres (Some (exampleCodesignData\<lparr>clean := Some False\<rparr>)) ''/app'' = ([], Inr ())
   \<and> ServerGenerateCodesignFiles
        \<lparr>req_buildId = ''b1'', appId = ''org.app'', appName = ''app'', req_clean = Some False,
         req_username = Some ''dev@example.com'', req_password = Some ''secret'',
         req_sharedCloud = None, devices = []\<rparr>
      \<in> set (fst (generateCodesignFiles (exampleEnv certificateManifest (Inr ()))
                     (Some (exampleCodesignData\<lparr>clean := Some False\<rparr>)) ''/app''))"
proof -
  have h1: "validateParameteres (Some exampleCodesignData) ''/app'' = ([], Inr ())"
    by (simp add: run_defs example_defs action_simps ret_def)
  have h2: "validateParameteres (Some (exampleCodesignData\<lparr>clean := Some False\<rparr>)) ''/app''
              = ([], Inr ())"
    by (simp add: run_defs example_defs action_simps ret_def)
  have pd: "getProjectData (exampleEnv certificateManifest (Inr ())) ''/app''
              = Inr \<lparr>pd_projectDir = ''/app'', pd_projectName = ''app'', pd_projectId = ''org.app''\<rparr>"
    by (simp add: example_defs)
  have n: "sanitizeName (exampleEnv certificateManifest (Inr ())) ''app'' = Inr ''app''"
    by (simp add: example_defs)
  from C9_clean_defaults_to_true [OF h1, of "exampleEnv certificateManifest (Inr ())"]
       C9_clean_defaults_to_true [OF h2, of "exampleEnv certificateManifest (Inr ())"]
       h1 h2 pd n
  show ?thesis
    by (simp add: example_defs)
qed

text \<open>
  C1, as the code has it: when the manifest fetched from the result url has a missing or
  empty buildItems list, downloadServerResults is never called and generateCodesignFiles
  throws an error with the manifest's stderr; unless the errors text contains
  "403 Forbidden", the message is "Codesign failed. Reason is: " followed by the errors
  text and a full stop, so it contains the errors text.
\<close>

theorem C1_no_items_raises_without_download:
  assumes "GetObjectFromS3File url \<in> set (fst (generateCodesignFiles env codesignData projectDir))"
    and "getObjectFromS3File env url = Inr manifest"
    and "noBuildItems manifest"
  shows "(\<forall>r opts. DownloadServerResults r opts
                    \<notin> set (fst (generateCodesignFiles env codesignData projectDir)))
     \<and> (\<exists>e. snd (generateCodesignFiles env codesignData projectDir) = Inl e
            \<and> err_stderr e = stderr manifest
            \<and> (\<not> sublist ''403 Forbidden'' (errorsOrEmpty manifest) \<longrightarrow>
                 message e = ''Codesign failed. Reason is: '' @ errorsOrEmpty manifest @ ''.''
                 \<and> sublist (errorsOrEmpty manifest) (message e)))"
proof -
  from generateCodesignFiles_started [OF assms(1)] obtain d where
    d: "codesignData = Some d" and v: "validateParameteres (Some d) projectDir = ([], Inr ())"
    by blast
  let ?cd = "d\<lparr>clean := (if clean d = None then Some True else clean d)\<rparr>"
  let ?exec = "executeGeneration env ?cd projectDir (uuid_v4 env)"
  note run = generateCodesignFiles_valid [OF v, of env]
  have fetched: "GetObjectFromS3File url \<in> set (fst ?exec)"
    using assms(1) by (simp add: d run)
  note facts = executeGeneration_no_items [OF fetched assms(2) assms(3)]
  have no_download: "\<forall>r opts. DownloadServerResults r opts
                    \<notin> set (fst (generateCodesignFiles env codesignData projectDir))"
    using facts(2) by (simp add: d run)
  have contained: "sublist t (''Codesign failed. Reason is: '' @ t @ ''.'')" for t :: string
    by (rule sublist_appendI)
  have raised: "\<exists>e. snd (generateCodesignFiles env codesignData projectDir) = Inl e
            \<and> err_stderr e = stderr manifest
            \<and> (\<not> sublist ''403 Forbidden'' (errorsOrEmpty manifest) \<longrightarrow>
                 message e = ''Codesign failed. Reason is: '' @ errorsOrEmpty manifest @ ''.''
                 \<and> sublist (errorsOrEmpty manifest) (message e))"
    using contained [of "errorsOrEmpty manifest"]
    by (simp add: d run facts(1) failGeneration_outcome)
  from no_download raised show ?thesis
    by blast
qed

theorem C1_no_items_witness:
  "GetObjectFromS3File ''https://s3/result.json''
     \<in> set (fst (generateCodesignFiles (exampleEnv failedManifest (Inr ()))
                    (Some exampleCodesignData) ''/app''))
   \<and> getObjectFromS3File (exampleEnv failedManifest (Inr ())) ''https://s3/result.json''
       = Inr failedManifest
   \<and> noBuildItems failedManifest
   \<and> \<not> sublist ''403 Forbidden'' (errorsOrEmpty failedManifest)
   \<and> (\<exists>e. snd (generateCodesignFiles (exampleEnv failedManifest (Inr ()))
                  (Some exampleCodesignData) ''/app'') = Inl e
          \<and> message e = ''Codesign failed. Reason is: Invalid credentials.''
          \<and> sublist ''Invalid credentials'' (message e))"
proof -
  have h1: "GetObjectFromS3File ''https://s3/result.json''
     \<in> set (fst (generateCodesignFiles (exampleEnv failedManifest (Inr ()))
                    (Some exampleCodesignData) ''/app''))"
    by (simp add: run_defs example_defs action_simps ret_def throw_def Let_def)
  have h2: "getObjectFromS3File (exampleEnv failedManifest (Inr ())) ''https://s3/result.json''
       = Inr failedManifest"
    by (simp add: example_defs)
  have h3: "noBuildItems failedManifest"
    by (simp add: noBuildItems_def failedManifest_def)
  have h4: "\<not> sublist ''403 Forbidden'' (errorsOrEmpty failedManifest)"
    by (simp add: errorsOrEmpty_def failedManifest_def sublist_code)
  have e: "errorsOrEmpty failedManifest = ''Invalid credentials''"
    by (simp add: errorsOrEmpty_def failedManifest_def)
  from C1_no_items_raises_without_download [OF h1 h2 h3] h4 obtain err where
    "snd (generateCodesignFiles (exampleEnv failedManifest (Inr ()))
            (Some exampleCodesignData) ''/app'') = Inl err"
    and "message err = ''Codesign failed. Reason is: '' @ errorsOrEmpty failedManifest @ ''.''"
    and "sublist (errorsOrEmpty failedManifest) (message err)"
    by blast
  then have "\<exists>e. snd (generateCodesignFiles (exampleEnv failedManifest (Inr ()))
                  (Some exampleCodesignData) ''/app'') = Inl e
          \<and> message e = ''Codesign failed. Reason is: Invalid credentials.''
          \<and> sublist ''Invalid credentials'' (message e)"
    by (simp add: e)
  with h1 h2 h3 h4 show ?thesis
    by blast
qed

text \<open>
  C1 as stated fails on a manifest whose errors text contains "403 Forbidden": the
  buildItems list is empty, and the message of the error thrown does not contain the
  manifest's errors text.
\<close>

theorem C1_forbidden_counterexample:
  "GetObjectFromS3File ''https://s3/result.json''
     \<in> set (fst (generateCodesignFiles (exampleEnv forbiddenManifest (Inr ()))
                    (Some exampleCodesignData) ''/app''))
   \<and> getObjectFromS3File (exampleEnv forbiddenManifest (Inr ())) ''https://s3/result.json''
       = Inr forbiddenManifest
   \<and> noBuildItems forbiddenManifest
   \<and> errors forbiddenManifest = Some ''Request failed: 403 Forbidden''
   \<and> snd (generateCodesignFiles (exampleEnv forbiddenManifest (Inr ()))
            (Some exampleCodesignData) ''/app'')
       = Inl \<lparr>message = ''Codesign failed. Reason is: The Code Signing Assistance service is temporary unavailable. Please try again later..'',
              err_stderr = None, err_buildId = Some ''b1''\<rparr>
   \<and> \<not> sublist ''Request failed: 403 Forbidden''
         ''Codesign failed. Reason is: The Code Signing Assistance service is temporary unavailable. Please try again later..''"
proof -
  have "\<not> sublist ''Request failed: 403 Forbidden''
         ''Codesign failed. Reason is: The Code Signing Assistance service is temporary unavailable. Please try again later..''"
    by (simp add: sublist_code)
  then show ?thesis
    by (simp add: run_defs example_defs action_simps ret_def throw_def Let_def)
qed

text \<open>
  C2: when the manifest fetched has a missing or empty buildItems list and its errors text
  contains "403 Forbidden", the error thrown by generateCodesignFiles has the message
  "Codesign failed. Reason is: The Code Signing Assistance service is temporary
  unavailable. Please try again later.." (the sanitized text where the errors text would
  stand), which does not contain the errors text; the errors text is logged at trace level
  ("Codesign errors: ...") and no line logged at info level contains it.
\<close>

theorem C2_forbidden_is_sanitized:
  assumes "GetObjectFromS3File url \<in> set (fst (generateCodesignFiles env codesignData projectDir))"
    and "getObjectFromS3File env url = Inr manifest"
    and "noBuildItems manifest"
    and "sublist ''403 Forbidden'' (errorsOrEmpty manifest)"
  shows "snd (generateCodesignFiles env codesignData projectDir)
           = Inl \<lparr>message = ''Codesign failed. Reason is: The Code Signing Assistance service is temporary unavailable. Please try again later..'',
                  err_stderr = stderr manifest, err_buildId = Some (uuid_v4 env)\<rparr>
     \<and> serviceUnavailableMessage
         = ''The Code Signing Assistance service is temporary unavailable. Please try again later.''
     \<and> \<not> sublist (errorsOrEmpty manifest)
           ''Codesign failed. Reason is: The Code Signing Assistance service is temporary unavailable. Please try again later..''
     \<and> LoggerTrace [Str (''Codesign errors: '' @ errorsOrEmpty manifest)]
          \<in> set (fst (generateCodesignFiles env codesignData projectDir))
     \<and> (\<forall>s. LoggerInfo s \<in> set (fst (generateCodesignFiles env codesignData projectDir))
            \<longrightarrow> \<not> sublist (errorsOrEmpty manifest) s)"
proof -
  from generateCodesignFiles_started [OF assms(1)] obtain d where
    d: "codesignData = Some d" and v: "validateParameteres (Some d) projectDir = ([], Inr ())"
    by blast
  let ?cd = "d\<lparr>clean := (if clean d = None then Some True else clean d)\<rparr>"
  let ?exec = "executeGeneration env ?cd projectDir (uuid_v4 env)"
  let ?raw = "errorsOrEmpty manifest"
  note run = generateCodesignFiles_valid [OF v, of env]
  have fetched: "GetObjectFromS3File url \<in> set (fst ?exec)"
    using assms(1) by (simp add: d run)
  note facts = executeGeneration_no_items [OF fetched assms(2) assms(3)]
  have outcome: "snd (generateCodesignFiles env codesignData projectDir)
           = Inl \<lparr>message = ''Codesign failed. Reason is: The Code Signing Assistance service is temporary unavailable. Please try again later..'',
                  err_stderr = stderr manifest, err_buildId = Some (uuid_v4 env)\<rparr>"
    by (simp add: d run facts(1) failGeneration_outcome assms(4) serviceUnavailableMessage_def)
  have not_in: "\<not> sublist ?raw t" if "\<not> sublist ''403 Forbidden'' t" for t
    using that assms(4) sublist_trans by blast
  have msg: "\<not> sublist ?raw
           ''Codesign failed. Reason is: The Code Signing Assistance service is temporary unavailable. Please try again later..''"
    by (rule not_in) (simp add: sublist_code)
  have traced: "LoggerTrace [Str (''Codesign errors: '' @ ?raw)]
          \<in> set (fst (generateCodesignFiles env codesignData projectDir))"
    using facts(3) by (simp add: d run failGeneration_outcome assms(4))
  have info: "\<forall>s. LoggerInfo s \<in> set (fst (generateCodesignFiles env codesignData projectDir))
            \<longrightarrow> \<not> sublist ?raw s"
  proof (intro allI impI)
    fix s
    assume "LoggerInfo s \<in> set (fst (generateCodesignFiles env codesignData projectDir))"
    then have "LoggerInfo s \<in> set (fst ?exec)"
      by (simp add: d run)
    then have s: "s = ''Starting generation of iOS certificate and provision files.''"
      by (rule facts(4))
    show "\<not> sublist ?raw s"
      unfolding s by (rule not_in) (simp add: sublist_code)
  qed
  from outcome msg traced info show ?thesis
    by (simp add: serviceUnavailableMessage_def)
qed

theorem C2_forbidden_witness:
  "GetObjectFromS3File ''https://s3/result.json''
     \<in> set (fst (generateCodesignFiles (exampleEnv forbiddenManifest (Inr ()))
                    (Some exampleCodesignData) ''/app''))
   \<and> getObjectFromS3File (exampleEnv forbiddenManifest (Inr ())) ''https://s3/result.json''
       = Inr forbiddenManifest
   \<and> noBuildItems forbiddenManifest
   \<and> sublist ''403 Forbidden'' (errorsOrEmpty forbiddenManifest)
   \<and> snd (generateCodesignFiles (exampleEnv forbiddenManifest (Inr ()))
            (Some exampleCodesignData) ''/app'')
       = Inl \<lparr>message = ''Codesign failed. Reason is: The Code Signing Assistance service is temporary unavailable. Please try again later..'',
              err_stderr = None, err_buildId = Some ''b1''\<rparr>
   \<and> LoggerTrace [Str ''Codesign errors: Request failed: 403 Forbidden'']
        \<in> set (fst (generateCodesignFiles (exampleEnv forbiddenManifest (Inr ()))
                       (Some exampleCodesignData) ''/app''))"
proof -
  have h1: "GetObjectFromS3File ''https://s3/result.json''
     \<in> set (fst (generateCodesignFiles (exampleEnv forbiddenManifest (Inr ()))
                    (Some exampleCodesignData) ''/app''))"
    by (simp add: run_defs example_defs action_simps ret_def throw_def Let_def)
  have h2: "getObjectFromS3File (exampleEnv forbiddenManifest (Inr ())) ''https://s3/result.json''
       = Inr forbiddenManifest"
    by (simp add: example_defs)
  have h3: "noBuildItems forbiddenManifest"
    by (simp add: noBuildItems_def forbiddenManifest_def)
  have e: "errorsOrEmpty forbiddenManifest = ''Request failed: 403 Forbidden''"
    by (simp add: errorsOrEmpty_def forbiddenManifest_def)
  have h4: "sublist ''403 Forbidden'' (errorsOrEmpty forbiddenManifest)"
    unfolding e by (simp add: sublist_code)
  have s: "stderr forbiddenManifest = None"
    by (simp add: forbiddenManifest_def)
  have u: "uuid_v4 (exampleEnv forbiddenManifest (Inr ())) = ''b1''"
    by (simp add: exampleEnv_def)
  note t = C2_forbidden_is_sanitized [OF h1 h2 h3 h4]
  have r: "snd (generateCodesignFiles (exampleEnv forbiddenManifest (Inr ()))
            (Some exampleCodesignData) ''/app'')
       = Inl \<lparr>message = ''Codesign failed. Reason is: The Code Signing Assistance service is temporary unavailable. Please try again later..'',
              err_stderr = None, err_buildId = Some ''b1''\<rparr>"
    using t by (simp only: s u)
  have tr: "LoggerTrace [Str ''Codesign errors: Request failed: 403 Forbidden'']
        \<in> set (fst (generateCodesignFiles (exampleEnv forbiddenManifest (Inr ()))
                       (Some exampleCodesignData) ''/app''))"
    using t by (simp add: e)
  from h1 h2 h3 h4 r tr show ?thesis
    by blast
qed

text \<open>
  C3, as the code has it: when waitForServerOperationToFinish fails, the error is logged at
  trace level and the very next effect is the fetch of the result manifest from the result
  url (getObjectFromS3File), the only manifest fetch of the run.  The polling error does
  not decide the run: the outcome is that of the same run with a polling that succeeds
  (a result, or the error of whatever step fails after the polling), and the effects are
  those of that run with the trace line added.  The result url is read at most once more,
  by getContentOfS3File for the full output, and exactly once more when the run returns a
  result.
\<close>

theorem C3_polling_failure_is_logged_and_fetch_follows:
  assumes "WaitForServerOperationToFinish b resp
             \<in> set (fst (generateCodesignFiles env codesignData projectDir))"
    and "waitForServerOperationToFinish env b resp = Inl ex"
  shows "filter isManifestFetch (fst (generateCodesignFiles env codesignData projectDir))
           = [GetObjectFromS3File (resultUrl resp)]
     \<and> LoggerTrace [Str ''Codesign generation failed with err: '', ErrObj ex]
          \<in> set (fst (generateCodesignFiles env codesignData projectDir))
     \<and> snd (generateCodesignFiles env codesignData projectDir)
         = snd (generateCodesignFiles (env\<lparr>waitForServerOperationToFinish := (\<lambda>b r. Inr ())\<rparr>)
                  codesignData projectDir)
     \<and> filter (\<lambda>ev. ev \<noteq> LoggerTrace [Str ''Codesign generation failed with err: '', ErrObj ex])
          (fst (generateCodesignFiles env codesignData projectDir))
         = fst (generateCodesignFiles (env\<lparr>waitForServerOperationToFinish := (\<lambda>b r. Inr ())\<rparr>)
                  codesignData projectDir)
     \<and> (\<exists>pre post. fst (generateCodesignFiles env codesignData projectDir)
           = pre @ [WaitForServerOperationToFinish b resp,
                    LoggerTrace [Str ''Codesign generation failed with err: '', ErrObj ex],
                    GetObjectFromS3File (resultUrl resp)] @ post)
     \<and> (filter isContentFetch (fst (generateCodesignFiles env codesignData projectDir)) = []
         \<or> filter isContentFetch (fst (generateCodesignFiles env codesignData projectDir))
             = [GetContentOfS3File (resultUrl resp)])
     \<and> (\<forall>r. snd (generateCodesignFiles env codesignData projectDir) = Inr r \<longrightarrow>
           filter isContentFetch (fst (generateCodesignFiles env codesignData projectDir))
             = [GetContentOfS3File (resultUrl resp)])"
proof -
  let ?env = "env\<lparr>waitForServerOperationToFinish := (\<lambda>b r. Inr ())\<rparr>"
  from generateCodesignFiles_started [OF assms(1)] obtain d where
    d: "codesignData = Some d" and v: "validateParameteres (Some d) projectDir = ([], Inr ())"
    by blast
  let ?cd = "d\<lparr>clean := (if clean d = None then Some True else clean d)\<rparr>"
  let ?exec = "executeGeneration env ?cd projectDir (uuid_v4 env)"
  note run = generateCodesignFiles_valid [OF v, of env]
  note run_ok = generateCodesignFiles_valid [OF v, of ?env]
  have u: "uuid_v4 ?env = uuid_v4 env"
    by simp
  have waited: "WaitForServerOperationToFinish b resp \<in> set (fst ?exec)"
    using assms(1) by (simp add: d run)
  note facts = executeGeneration_wait_failed [OF waited assms(2)]
  have first: "filter isManifestFetch (fst (generateCodesignFiles env codesignData projectDir))
           = [GetObjectFromS3File (resultUrl resp)]
     \<and> LoggerTrace [Str ''Codesign generation failed with err: '', ErrObj ex]
          \<in> set (fst (generateCodesignFiles env codesignData projectDir))
     \<and> snd (generateCodesignFiles env codesignData projectDir)
         = snd (generateCodesignFiles ?env codesignData projectDir)
     \<and> filter (\<lambda>ev. ev \<noteq> LoggerTrace [Str ''Codesign generation failed with err: '', ErrObj ex])
          (fst (generateCodesignFiles env codesignData projectDir))
         = fst (generateCodesignFiles ?env codesignData projectDir)"
    unfolding d run run_ok u using facts(1) facts(2) facts(3) facts(4) by simp
  from facts(5) obtain pre post where
    "fst ?exec = pre @ [WaitForServerOperationToFinish b resp,
                    LoggerTrace [Str ''Codesign generation failed with err: '', ErrObj ex],
                    GetObjectFromS3File (resultUrl resp)] @ post"
    by blast
  then have "fst (generateCodesignFiles env codesignData projectDir)
           = (UuidV4 # pre) @ [WaitForServerOperationToFinish b resp,
                    LoggerTrace [Str ''Codesign generation failed with err: '', ErrObj ex],
                    GetObjectFromS3File (resultUrl resp)] @ post"
    by (simp add: d run)
  then have order: "\<exists>pre post. fst (generateCodesignFiles env codesignData projectDir)
           = pre @ [WaitForServerOperationToFinish b resp,
                    LoggerTrace [Str ''Codesign generation failed with err: '', ErrObj ex],
                    GetObjectFromS3File (resultUrl resp)] @ post"
    by blast
  have content: "filter isContentFetch (fst (generateCodesignFiles env codesignData projectDir)) = []
         \<or> filter isContentFetch (fst (generateCodesignFiles env codesignData projectDir))
             = [GetContentOfS3File (resultUrl resp)]"
    using facts(6) by (simp add: d run)
  have returned: "\<forall>r. snd (generateCodesignFiles env codesignData projectDir) = Inr r \<longrightarrow>
           filter isContentFetch (fst (generateCodesignFiles env codesignData projectDir))
             = [GetContentOfS3File (resultUrl resp)]"
  proof (intro allI impI)
    fix r
    assume "snd (generateCodesignFiles env codesignData projectDir) = Inr r"
    then have "(case snd ?exec of
                  Inl e \<Rightarrow> Inl (e\<lparr>err_buildId := Some (uuid_v4 env)\<rparr>)
                | Inr r \<Rightarrow> Inr r) = Inr r"
      unfolding d run by (simp only: snd_conv)
    then have "snd ?exec = Inr r"
      by (cases "snd ?exec") simp_all
    then have "filter isContentFetch (fst ?exec) = [GetContentOfS3File (resultUrl resp)]"
      by (rule facts(7))
    then show "filter isContentFetch (fst (generateCodesignFiles env codesignData projectDir))
             = [GetContentOfS3File (resultUrl resp)]"
      unfolding d run by (simp only: fst_conv filter.simps isContentFetch.simps if_False)
  qed
  from first order content returned show ?thesis
    by blast
qed

theorem C3_polling_failure_witness:
  "WaitForServerOperationToFinish ''b1'' exampleResponse
     \<in> set (fst (generateCodesignFiles (exampleEnv failedManifest (Inl timeoutError))
                    (Some exampleCodesignData) ''/app''))
   \<and> waitForServerOperationToFinish (exampleEnv failedManifest (Inl timeoutError))
        ''b1'' exampleResponse = Inl timeoutError
   \<and> filter isManifestFetch
        (fst (generateCodesignFiles (exampleEnv failedManifest (Inl timeoutError))
                (Some exampleCodesignData) ''/app''))
       = [GetObjectFromS3File ''https://s3/result.json'']
   \<and> LoggerTrace [Str ''Codesign generation failed with err: '', ErrObj timeoutError]
        \<in> set (fst (generateCodesignFiles (exampleEnv failedManifest (Inl timeoutError))
                       (Some exampleCodesignData) ''/app''))"
proof -
  have h1: "WaitForServerOperationToFinish ''b1'' exampleResponse
     \<in> set (fst (generateCodesignFiles (exampleEnv failedManifest (Inl timeoutError))
                    (Some exampleCodesignData) ''/app''))"
    by (simp add: run_defs exampleEnv_def exampleCodesignData_def failedManifest_def
        action_simps ret_def throw_def Let_def)
  have h2: "waitForServerOperationToFinish (exampleEnv failedManifest (Inl timeoutError))
        ''b1'' exampleResponse = Inl timeoutError"
    by (simp add: exampleEnv_def)
  have u: "resultUrl exampleResponse = ''https://s3/result.json''"
    by (simp add: exampleResponse_def)
  note t = C3_polling_failure_is_logged_and_fetch_follows [OF h1 h2]
  have f: "filter isManifestFetch
        (fst (generateCodesignFiles (exampleEnv failedManifest (Inl timeoutError))
                (Some exampleCodesignData) ''/app''))
       = [GetObjectFromS3File ''https://s3/result.json'']"
    using t by (simp only: u)
  from h1 h2 f t show ?thesis
    by blast
qed

text \<open>
  C3 as stated fails: with a polling that times out and a manifest that lists a
  certificate, the run returns the result and no error is raised to the caller.
\<close>

theorem C3_timeout_not_raised_counterexample:
  "WaitForServerOperationToFinish ''b1'' exampleResponse
     \<in> set (fst (generateCodesignFiles (exampleEnv certificateManifest (Inl timeoutError))
                    (Some exampleCodesignData) ''/app''))
   \<and> waitForServerOperationToFinish (exampleEnv certificateManifest (Inl timeoutError))
        ''b1'' exampleResponse = Inl timeoutError
   \<and> snd (generateCodesignFiles (exampleEnv certificateManifest (Inl timeoutError))
            (Some exampleCodesignData) ''/app'')
       = Inr \<lparr>res_buildId = ''b1'', res_stderr = None, res_stdout = None,
              res_fullOutput = ''{}'',
              res_outputFilesPaths = [''/app/codesign_files/ios/cert.p12'']\<rparr>"
  by (simp add: run_defs exampleEnv_def exampleCodesignData_def certificateManifest_def
      action_simps ret_def throw_def Let_def)

section \<open>Claims about the build command helper\<close>

text \<open>
  C10: when the option \<open>local\<close> is not set, buildForPublishingPlatform never builds
  locally, and every cloud build it submits has the RELEASE configuration; once
  getCloudBuildData has returned the build data, the cloud build is submitted with that
  data and RELEASE in place of the configuration getCloudBuildData derived from the
  option \<open>release\<close> (DEBUG when \<open>release\<close> is not set).
\<close>

theorem C10_publishing_build_is_release:
  assumes "falsy_bool (opt_local (cli_options env))"
  shows "(\<forall>ps p cfg acc a i.
            CloudBuild ps p cfg acc a i \<in> set (fst (buildForPublishingPlatform c env platformArg))
            \<longrightarrow> cfg = RELEASE c)
     \<and> (\<forall>p l t. LocalBuild p l t \<notin> set (fst (buildForPublishingPlatform c env platformArg)))
     \<and> (\<forall>p bd. validatePlatformName env platformArg = Inr p
                \<and> snd (getCloudBuildData c env p) = Inr bd
           \<longrightarrow> buildConfiguration bd
                 = (if falsy_bool (opt_release (cli_options env)) then DEBUG c else RELEASE c)
               \<and> CloudBuild (projectSettings bd) (bd_platform bd) (RELEASE c)
                   (opt_accountId (cli_options env)) (androidBuildData bd) (iOSBuildData bd)
                 \<in> set (fst (buildForPublishingPlatform c env platformArg)))"
proof -
  have no_build: "\<forall>ps q cfg acc a i. CloudBuild ps q cfg acc a i \<notin> set (fst (getCloudBuildData c env p))"
    and no_local: "\<forall>q l t. LocalBuild q l t \<notin> set (fst (getCloudBuildData c env p))" for p
    using getCloudBuildData_events [of _ c env p] by blast+
  have run: "buildForPublishingPlatform c env platformArg =
      (case validatePlatformName env platformArg of
         Inl e \<Rightarrow> ([ValidatePlatformName platformArg], Inl e)
       | Inr p \<Rightarrow>
           (case snd (getCloudBuildData c env p) of
              Inl e \<Rightarrow> (ValidatePlatformName platformArg # fst (getCloudBuildData c env p), Inl e)
            | Inr bd \<Rightarrow>
                (ValidatePlatformName platformArg # fst (getCloudBuildData c env p)
                   @ [CloudBuild (projectSettings bd) (bd_platform bd) (RELEASE c)
                        (opt_accountId (cli_options env)) (androidBuildData bd) (iOSBuildData bd)],
                 case cloudBuild env (projectSettings bd) (bd_platform bd) (RELEASE c)
                        (opt_accountId (cli_options env)) (androidBuildData bd) (iOSBuildData bd) of
                   Inl e \<Rightarrow> Inl e
                 | Inr buildResult \<Rightarrow> Inr (originalUrl (qrData buildResult)))))"
    using assms
    by (simp add: buildForPublishingPlatform_def andThen_perform Let_def ret_def
        andThen_outcome [of "getCloudBuildData c env p" for p] split: sum.splits)
  have only_release: "\<forall>ps p cfg acc a i.
            CloudBuild ps p cfg acc a i \<in> set (fst (buildForPublishingPlatform c env platformArg))
            \<longrightarrow> cfg = RELEASE c"
    using no_build by (auto simp: run split: sum.splits)
  have never_local: "\<forall>p l t. LocalBuild p l t \<notin> set (fst (buildForPublishingPlatform c env platformArg))"
    using no_local by (auto simp: run split: sum.splits)
  have submitted: "\<forall>p bd. validatePlatformName env platformArg = Inr p
                \<and> snd (getCloudBuildData c env p) = Inr bd
           \<longrightarrow> buildConfiguration bd
                 = (if falsy_bool (opt_release (cli_options env)) then DEBUG c else RELEASE c)
               \<and> CloudBuild (projectSettings bd) (bd_platform bd) (RELEASE c)
                   (opt_accountId (cli_options env)) (androidBuildData bd) (iOSBuildData bd)
                 \<in> set (fst (buildForPublishingPlatform c env platformArg))"
    using getCloudBuildData_configuration [of c env] by (auto simp: run)
  from only_release never_local submitted show ?thesis
    by blast
qed

theorem C10_publishing_build_witness:
  "falsy_bool (opt_local (cli_options exampleBuildEnv))
   \<and> falsy_bool (opt_release (cli_options exampleBuildEnv))
   \<and> validatePlatformName exampleBuildEnv ''Android'' = Inr ''Android''
   \<and> snd (getCloudBuildData exampleConstants exampleBuildEnv ''Android'')
       = Inr \<lparr>projectSettings =
                \<lparr>nativescriptData = Some ''{}'', ps_projectDir = ''/app'',
                 ps_projectId = ''org.app'', ps_projectName = ''app'', ps_bundle = False,
                 ps_clean = None, ps_env = None\<rparr>,
              bd_platform = ''Android'', buildConfiguration = ''Debug'',
              androidBuildData =
                \<lparr>android_pathToCertificate = [], android_certificatePassword = None\<rparr>,
              iOSBuildData =
                \<lparr>ios_pathToCertificate = [], ios_certificatePassword = None,
                 pathToProvision = [], buildForDevice = True\<rparr>\<rparr>
   \<and> buildForPublishingPlatform exampleConstants exampleBuildEnv ''Android''
       = ([ValidatePlatformName ''Android'', ValidatePlatformName ''Android'',
           BuildLoggerInfo ''Executing cloud build with platform: Android.'',
           ReadJson ''/app/package.json'',
           CloudBuild
             \<lparr>nativescriptData = Some ''{}'', ps_projectDir = ''/app'',
              ps_projectId = ''org.app'', ps_projectName = ''app'', ps_bundle = False,
              ps_clean = None, ps_env = None\<rparr>
             ''Android'' ''Release'' (Some ''acc'')
             \<lparr>android_pathToCertificate = [], android_certificatePassword = None\<rparr>
             \<lparr>ios_pathToCertificate = [], ios_certificatePassword = None,
              pathToProvision = [], buildForDevice = True\<rparr>],
          Inr ''https://s3/app.apk'')"
proof -
  have h: "falsy_bool (opt_local (cli_options exampleBuildEnv))"
    by (simp add: falsy_bool_def exampleBuildEnv_def exampleOptions_def)
  from C10_publishing_build_is_release [OF h, of exampleConstants "''Android''"] h
  show ?thesis
    by (simp add: buildForPublishingPlatform_def getCloudBuildData_def resolveOrEmpty_def
        falsy_bool_def falsy_string_def example_defs action_simps ret_def Let_def)
qed

end
